theory Spec2Isabelle
  imports Complex_Main
begin

section \<open>Python values used by the embedding service\<close>

text \<open>
  A Python exception is modelled by its class, the text \<open>str(e)\<close> gives for it, and its
  \<open>__context__\<close>: the exception that was being handled when it was raised, which
  Python records on every \<open>raise\<close> inside an \<open>except\<close> block.
  \<open>KeyboardInterrupt\<close>, \<open>SystemExit\<close> and \<open>GeneratorExit\<close> derive from
  \<open>BaseException\<close> but not from \<open>Exception\<close>, so a handler \<open>except Exception\<close>
  does not catch them. \<open>OtherError\<close> stands for any further class that derives from
  \<open>Exception\<close>, \<open>OtherBaseException\<close> for any further class that does not.
\<close>

datatype exn_class =
    ValueError | RuntimeError | AttributeError | OtherError string
  | KeyboardInterrupt | SystemExit | GeneratorExit | OtherBaseException string

datatype exn = Exn (exn_class: exn_class) (str: string) (exn_context: "exn option")

text \<open>Whether \<open>except Exception\<close> catches the exception.\<close>

fun derives_from_Exception :: "exn_class \<Rightarrow> bool" where
  "derives_from_Exception KeyboardInterrupt = False"
| "derives_from_Exception SystemExit = False"
| "derives_from_Exception GeneratorExit = False"
| "derives_from_Exception (OtherBaseException name) = False"
| "derives_from_Exception ValueError = True"
| "derives_from_Exception RuntimeError = True"
| "derives_from_Exception AttributeError = True"
| "derives_from_Exception (OtherError name) = True"

definition is_Exception :: "exn \<Rightarrow> bool" where
  "is_Exception e \<longleftrightarrow> derives_from_Exception (exn_class e)"

text \<open>The message of the \<open>AttributeError\<close> that an attribute access on \<open>None\<close> raises.\<close>

definition NoneType_has_no_attribute :: "string \<Rightarrow> exn" where
  "NoneType_has_no_attribute attr =
     Exn AttributeError
       ([CHR 0x27] @ ''NoneType'' @ [CHR 0x27] @ '' object has no attribute '' @
        [CHR 0x27] @ attr @ [CHR 0x27]) None"

text \<open>The values of the dictionary the health endpoint returns.\<close>

datatype json_value = JStr string | JBool bool

section \<open>The sentence-transformers model (external)\<close>

text \<open>
  \<open>SentenceTransformer\<close> belongs to a third-party library, so the loaded model is a
  parameter of the development: a record of the three methods the service calls. Each of
  them either raises or returns. \<open>encode\<close> receives the sentences, \<open>batch_size\<close> and
  \<open>normalize_embeddings\<close> (the service always passes \<open>show_progress_bar=False\<close> and
  \<open>convert_to_numpy=True\<close>); its result stands for the rows of the array it returns,
  which \<open>tolist()\<close> turns into nested lists. The type \<open>'f\<close> of the numbers in a vector
  is left open.
\<close>

record 'f SentenceTransformer =
  encode :: "string list \<Rightarrow> int \<Rightarrow> bool \<Rightarrow> exn + 'f list list"
  get_max_seq_length :: "exn + nat"
  get_sentence_embedding_dimension :: "exn + nat"

text \<open>One invocation of \<open>encode\<close>: the arguments it was called with.\<close>

type_synonym encode_call = "string list \<times> int \<times> bool"

section \<open>embedding_model.py\<close>

record 'f EmbeddingModel =
  model_name :: string
  model :: "'f SentenceTransformer option"

definition default_model_name :: string where
  "default_model_name = ''intfloat/multilingual-e5-base''"

text \<open>
  \<open>_load_model\<close>: the constructor of the library's model is the parameter \<open>load\<close>.
  Any exception raised while loading or while reading the two properties for the log
  is raised again.
\<close>

definition load_model ::
  "(string \<Rightarrow> exn + 'f SentenceTransformer) \<Rightarrow> 'f EmbeddingModel \<Rightarrow> exn + 'f EmbeddingModel"
where
  "load_model load self =
     (case load (model_name self) of
        Inl e \<Rightarrow> Inl e
      | Inr m \<Rightarrow>
          (case get_max_seq_length m of
             Inl e \<Rightarrow> Inl e
           | Inr _ \<Rightarrow>
               (case get_sentence_embedding_dimension m of
                  Inl e \<Rightarrow> Inl e
                | Inr _ \<Rightarrow> Inr (self\<lparr>model := Some m\<rparr>))))"

text \<open>\<open>EmbeddingModel.__init__\<close>.\<close>

definition EmbeddingModel_init ::
  "(string \<Rightarrow> exn + 'f SentenceTransformer) \<Rightarrow> string \<Rightarrow> exn + 'f EmbeddingModel"
where
  "EmbeddingModel_init load name = load_model load \<lparr>model_name = name, model = None\<rparr>"

definition is_ready :: "'f EmbeddingModel \<Rightarrow> bool" where
  "is_ready self \<longleftrightarrow> model self \<noteq> None"

text \<open>
  \<open>_apply_role_prefix\<close>. \<open>not role\<close> holds for \<open>None\<close> and for the empty string.
\<close>

definition apply_role_prefix :: "string list \<Rightarrow> string option \<Rightarrow> string list" where
  "apply_role_prefix ts r =
     (case r of
        None \<Rightarrow> ts
      | Some rs \<Rightarrow>
          if rs = [] then ts
          else if rs \<notin> set [''passage'', ''query''] then ts
          else (let prefix = rs @ '': '' in map (\<lambda>text. prefix @ text) ts))"

text \<open>
  \<open>generate_embeddings\<close>, returning what the call returns or raises together with the
  invocations of the model's \<open>encode\<close> it made. Reading \<open>encode\<close> off a model that is
  \<open>None\<close> would raise inside the \<open>try\<close> block. The \<open>except Exception\<close> clause
  replaces what it catches by a \<open>RuntimeError\<close>; an exception it does not catch leaves
  the call as it is.
\<close>

definition generate_embeddings ::
  "'f EmbeddingModel \<Rightarrow> string list \<Rightarrow> string option \<Rightarrow> int \<Rightarrow> bool
     \<Rightarrow> (exn + 'f list list) \<times> encode_call list"
where
  "generate_embeddings self ts r batch_size nrm =
     (if \<not> is_ready self then
        (Inl (Exn ValueError ''Model not loaded. Call _load_model() first.'' None), [])
      else if ts = [] then (Inr [], [])
      else
        (let processed_texts = apply_role_prefix ts r in
         case model self of
           None \<Rightarrow>
             (let e = NoneType_has_no_attribute ''encode'' in
              (Inl (Exn RuntimeError (''Embedding generation failed: '' @ str e) (Some e)), []))
         | Some m \<Rightarrow>
             (case encode m processed_texts batch_size nrm of
                Inl e \<Rightarrow>
                  (if is_Exception e then
                     Inl (Exn RuntimeError (''Embedding generation failed: '' @ str e) (Some e))
                   else Inl e,
                   [(processed_texts, batch_size, nrm)])
              | Inr embeddings \<Rightarrow>
                  (Inr embeddings, [(processed_texts, batch_size, nrm)]))))"

text \<open>\<open>generate_single_embedding\<close>; \<open>batch_size\<close> keeps its default 32.\<close>

definition generate_single_embedding ::
  "'f EmbeddingModel \<Rightarrow> string \<Rightarrow> string option \<Rightarrow> bool \<Rightarrow> (exn + 'f list) \<times> encode_call list"
where
  "generate_single_embedding self text r nrm =
     (case generate_embeddings self [text] r 32 nrm of
        (Inl e, calls) \<Rightarrow> (Inl e, calls)
      | (Inr result, calls) \<Rightarrow> (Inr (if result \<noteq> [] then result ! 0 else []), calls))"

section \<open>app.py\<close>

record EmbedRequest =
  texts :: "string list"
  role :: "string option"

text \<open>
  Constructing an \<open>EmbedRequest\<close>: the field \<open>texts\<close> is declared with
  \<open>min_items=1\<close>, so a list of fewer items is refused with a validation error.
\<close>

datatype ValidationError = ValidationError string

definition EmbedRequest_new :: "string list \<Rightarrow> string option \<Rightarrow> ValidationError + EmbedRequest" where
  "EmbedRequest_new ts r =
     (if length ts < 1 then Inl (ValidationError ''texts'')
      else Inr \<lparr>texts = ts, role = r\<rparr>)"

record 'f EmbedResponse =
  vectors :: "'f list list"

record HTTPException =
  status_code :: nat
  detail :: string

text \<open>
  What leaves a request handler that does not return: the \<open>HTTPException\<close> it raises,
  or an exception that none of its \<open>except\<close> clauses catches.
\<close>

datatype raised = HTTPError HTTPException | Uncaught exn

text \<open>
  \<open>lifespan\<close> up to its \<open>yield\<close>: the value of the global \<open>embedding_model\<close> when the
  service starts to serve, or the exception that aborts the start.
\<close>

definition lifespan_startup ::
  "(string \<Rightarrow> exn + 'f SentenceTransformer) \<Rightarrow> exn + 'f EmbeddingModel option"
where
  "lifespan_startup load =
     (case EmbeddingModel_init load default_model_name of
        Inl e \<Rightarrow> Inl e
      | Inr em \<Rightarrow> Inr (Some em))"

text \<open>
  \<open>embed_texts\<close>, given the global \<open>embedding_model\<close>. The handler raises an
  \<open>HTTPException\<close>, lets through an exception that \<open>except Exception\<close> does not
  catch, or returns an \<open>EmbedResponse\<close>; the second component lists the invocations of
  the model. With the global still \<open>None\<close>, the call of \<open>generate_embeddings\<close> raises
  inside the \<open>try\<close> block.
\<close>

definition embed_texts ::
  "'f EmbeddingModel option \<Rightarrow> EmbedRequest
     \<Rightarrow> (raised + 'f EmbedResponse) \<times> encode_call list"
where
  "embed_texts embedding_model request =
     (if texts request = [] then
        (Inl (HTTPError \<lparr>status_code = 400, detail = ''texts list cannot be empty''\<rparr>), [])
      else
        (case embedding_model of
           None \<Rightarrow>
             (Inl (HTTPError
                \<lparr>status_code = 500,
                 detail = ''Embedding generation failed: '' @
                          str (NoneType_has_no_attribute ''generate_embeddings'')\<rparr>), [])
         | Some em \<Rightarrow>
             (case generate_embeddings em (texts request) (role request) 32 True of
                (Inl e, calls) \<Rightarrow>
                  (if is_Exception e then
                     Inl (HTTPError
                       \<lparr>status_code = 500,
                        detail = ''Embedding generation failed: '' @ str e\<rparr>)
                   else Inl (Uncaught e),
                   calls)
              | (Inr vs, calls) \<Rightarrow> (Inr \<lparr>vectors = vs\<rparr>, calls))))"

text \<open>
  The status of the HTTP response the handler determines: the one of the
  \<open>HTTPException\<close> raised, 200 when the handler returns, and none when an exception
  passes through the handler uncaught.
\<close>

definition http_status :: "raised + 'a \<Rightarrow> nat option" where
  "http_status res =
     (case res of
        Inl (HTTPError ex) \<Rightarrow> Some (status_code ex)
      | Inl (Uncaught e) \<Rightarrow> None
      | Inr _ \<Rightarrow> Some 200)"

text \<open>\<open>health_check\<close>: the dictionary it returns, in the order of its keys.\<close>

definition health_check :: "'f EmbeddingModel option \<Rightarrow> (string \<times> json_value) list" where
  "health_check embedding_model =
     (let model_ready = (case embedding_model of None \<Rightarrow> False | Some em \<Rightarrow> is_ready em) in
      [(''status'', JStr (if model_ready then ''healthy'' else ''unhealthy'')),
       (''model_loaded'', JBool model_ready),
       (''model_name'', JStr ''intfloat/multilingual-e5-base'')])"

section \<open>The single-text wrapper as the specification words it\<close>

text \<open>
  The specification describes \<open>generate_single_embedding\<close> as the batch operation on the
  one-element sequence, returning its sole result, or an empty vector if the batch
  operation yields nothing.
\<close>

definition sole_result_or_empty :: "'f list list \<Rightarrow> 'f list" where
  "sole_result_or_empty vs = (case vs of [] \<Rightarrow> [] | v # _ \<Rightarrow> v)"

definition generate_single_embedding_spec ::
  "'f EmbeddingModel \<Rightarrow> string \<Rightarrow> string option \<Rightarrow> bool \<Rightarrow> (exn + 'f list) \<times> encode_call list"
where
  "generate_single_embedding_spec self text r nrm =
     (let (res, calls) = generate_embeddings self [text] r 32 nrm in
      (map_sum id sole_result_or_empty res, calls))"

section \<open>The Euclidean norm\<close>

text \<open>
  The specification measures a vector by its Euclidean (L2) norm, the square root of the
  sum of the squares of its entries, and asks for it to equal 1 within a tolerance.
\<close>

definition l2_norm :: "real list \<Rightarrow> real" where
  "l2_norm v = sqrt (\<Sum>x\<leftarrow>v. x\<^sup>2)"

definition unit_within :: "real \<Rightarrow> real list \<Rightarrow> bool" where
  "unit_within tol v \<longleftrightarrow> \<bar>l2_norm v - 1\<bar> \<le> tol"

section \<open>Sample models\<close>

text \<open>
  Stand-ins for a loaded model: one that embeds a sentence as the one-element vector of
  its length, one that always raises an error, one that is interrupted, and one that
  returns a fixed direction, scaled to unit length on request; then the wrapper around
  each of them and the wrapper with no model.
\<close>

definition length_transformer :: "real SentenceTransformer" where
  "length_transformer =
     \<lparr>encode = (\<lambda>ss bs nf. Inr (map (\<lambda>s. [real (length s)]) ss)),
      get_max_seq_length = Inr 512,
      get_sentence_embedding_dimension = Inr 1\<rparr>"

definition out_of_memory :: exn where
  "out_of_memory = Exn (OtherError ''OutOfMemoryError'') ''CUDA out of memory'' None"

definition failing_transformer :: "real SentenceTransformer" where
  "failing_transformer =
     \<lparr>encode = (\<lambda>ss bs nf. Inl out_of_memory),
      get_max_seq_length = Inr 512,
      get_sentence_embedding_dimension = Inr 1\<rparr>"

definition keyboard_interrupt :: exn where
  "keyboard_interrupt = Exn KeyboardInterrupt [] None"

definition interrupted_transformer :: "real SentenceTransformer" where
  "interrupted_transformer =
     \<lparr>encode = (\<lambda>ss bs nf. Inl keyboard_interrupt),
      get_max_seq_length = Inr 512,
      get_sentence_embedding_dimension = Inr 1\<rparr>"

definition direction_transformer :: "real SentenceTransformer" where
  "direction_transformer =
     \<lparr>encode = (\<lambda>ss bs nf. Inr (map (\<lambda>s. if nf then [3 / 5, 4 / 5] else [3, 4]) ss)),
      get_max_seq_length = Inr 512,
      get_sentence_embedding_dimension = Inr 2\<rparr>"

definition loaded_model :: "real EmbeddingModel" where
  "loaded_model = \<lparr>model_name = default_model_name, model = Some length_transformer\<rparr>"

definition failing_model :: "real EmbeddingModel" where
  "failing_model = \<lparr>model_name = default_model_name, model = Some failing_transformer\<rparr>"

definition interrupted_model :: "real EmbeddingModel" where
  "interrupted_model = \<lparr>model_name = default_model_name, model = Some interrupted_transformer\<rparr>"

definition direction_model :: "real EmbeddingModel" where
  "direction_model = \<lparr>model_name = default_model_name, model = Some direction_transformer\<rparr>"

definition unloaded_model :: "real EmbeddingModel" where
  "unloaded_model = \<lparr>model_name = default_model_name, model = None\<rparr>"

section \<open>Role prefixing\<close>

lemma apply_role_prefix_unset: "apply_role_prefix ts None = ts"
  by (simp add: apply_role_prefix_def)

lemma apply_role_prefix_known:
  assumes "r = ''passage'' \<or> r = ''query''"
  shows "apply_role_prefix ts (Some r) = map (\<lambda>text. r @ '': '' @ text) ts"
  using assms by (auto simp: apply_role_prefix_def)

lemma apply_role_prefix_unknown:
  assumes "r \<noteq> Some ''passage''" and "r \<noteq> Some ''query''"
  shows "apply_role_prefix ts r = ts"
  using assms by (auto simp: apply_role_prefix_def split: option.splits)

lemma apply_role_prefix_pointwise:
  "apply_role_prefix ts r = map (\<lambda>t. hd (apply_role_prefix [t] r)) ts"
  by (simp add: apply_role_prefix_def Let_def split: option.splits)

lemma length_apply_role_prefix: "length (apply_role_prefix ts r) = length ts"
  by (simp add: apply_role_prefix_def Let_def split: option.splits)

text \<open>
  Claim C1. Role prefixing is exact: with the role unset the texts are returned
  unchanged, and with the role \<open>passage\<close> or \<open>query\<close> the result is, text by text and
  in the same order, the role followed by a colon and a space and then the original text.
\<close>

theorem C1_role_prefix_exact:
  "apply_role_prefix ts None = ts \<and>
   apply_role_prefix ts (Some ''passage'') = map (\<lambda>text. ''passage: '' @ text) ts \<and>
   apply_role_prefix ts (Some ''query'') = map (\<lambda>text. ''query: '' @ text) ts \<and>
   (\<forall>r. r = ''passage'' \<or> r = ''query'' \<longrightarrow>
      length (apply_role_prefix ts (Some r)) = length ts \<and>
      (\<forall>i < length ts. apply_role_prefix ts (Some r) ! i = r @ '': '' @ ts ! i))"
proof -
  have "apply_role_prefix ts (Some ''passage'') = map (\<lambda>text. ''passage: '' @ text) ts"
    using apply_role_prefix_known [of "''passage''" ts] by simp
  moreover have "apply_role_prefix ts (Some ''query'') = map (\<lambda>text. ''query: '' @ text) ts"
    using apply_role_prefix_known [of "''query''" ts] by simp
  moreover have "length (apply_role_prefix ts (Some r)) = length ts \<and>
      (\<forall>i < length ts. apply_role_prefix ts (Some r) ! i = r @ '': '' @ ts ! i)"
    if "r = ''passage'' \<or> r = ''query''" for r
    using apply_role_prefix_known [OF that, of ts] by simp
  ultimately show ?thesis
    using apply_role_prefix_unset [of ts] by blast
qed

theorem C1_role_prefix_exact_witness:
  "apply_role_prefix [''Hello world'', ''This is a test problem''] (Some ''passage'') =
     [''passage: Hello world'', ''passage: This is a test problem''] \<and>
   apply_role_prefix [''Hello world''] (Some ''query'') = [''query: Hello world''] \<and>
   apply_role_prefix [''Hello world''] None = [''Hello world'']"
  using C1_role_prefix_exact [of "[''Hello world'', ''This is a test problem'']"]
        C1_role_prefix_exact [of "[''Hello world'']"]
  by simp

section \<open>What generate_embeddings does in each of its cases\<close>

lemma generate_embeddings_not_ready:
  assumes "\<not> is_ready self"
  shows "generate_embeddings self ts r bs nf =
           (Inl (Exn ValueError ''Model not loaded. Call _load_model() first.'' None), [])"
  using assms by (simp add: generate_embeddings_def)

lemma generate_embeddings_no_texts:
  assumes "is_ready self"
  shows "generate_embeddings self [] r bs nf = (Inr [], [])"
  using assms by (simp add: generate_embeddings_def)

lemma generate_embeddings_encode:
  assumes "model self = Some m" and "ts \<noteq> []"
  shows "generate_embeddings self ts r bs nf =
           (case encode m (apply_role_prefix ts r) bs nf of
              Inl e \<Rightarrow>
                if is_Exception e then
                  Inl (Exn RuntimeError (''Embedding generation failed: '' @ str e) (Some e))
                else Inl e
            | Inr embeddings \<Rightarrow> Inr embeddings,
            [(apply_role_prefix ts r, bs, nf)])"
  using assms by (simp add: generate_embeddings_def is_ready_def Let_def split: sum.splits)

lemma generate_embeddings_success:
  assumes "fst (generate_embeddings self ts r bs nf) = Inr vs"
  shows "(is_ready self \<and> ts = [] \<and> vs = []) \<or>
         (\<exists>m. model self = Some m \<and> ts \<noteq> [] \<and> encode m (apply_role_prefix ts r) bs nf = Inr vs)"
proof (cases "model self")
  case None
  then show ?thesis
    using assms by (simp add: generate_embeddings_not_ready is_ready_def)
next
  case (Some m)
  show ?thesis
  proof (cases "ts = []")
    case True
    then show ?thesis
      using assms Some by (simp add: generate_embeddings_no_texts is_ready_def)
  next
    case False
    then show ?thesis
      using assms Some by (simp add: generate_embeddings_encode split: sum.splits if_splits)
  qed
qed

section \<open>The embed handler\<close>

lemma embed_texts_no_texts:
  assumes "texts request = []"
  shows "embed_texts g request =
           (Inl (HTTPError \<lparr>status_code = 400, detail = ''texts list cannot be empty''\<rparr>), [])"
  using assms by (simp add: embed_texts_def)

lemma embed_texts_no_model:
  assumes "texts request \<noteq> []"
  shows "embed_texts None request =
           (Inl (HTTPError
              \<lparr>status_code = 500,
               detail = ''Embedding generation failed: '' @
                        str (NoneType_has_no_attribute ''generate_embeddings'')\<rparr>), [])"
  using assms by (simp add: embed_texts_def)

lemma embed_texts_failure:
  assumes "texts request \<noteq> []"
      and "generate_embeddings em (texts request) (role request) 32 True = (Inl e, calls)"
      and "is_Exception e"
  shows "embed_texts (Some em) request =
           (Inl (HTTPError
              \<lparr>status_code = 500, detail = ''Embedding generation failed: '' @ str e\<rparr>), calls)"
  using assms by (simp add: embed_texts_def)

lemma embed_texts_uncaught:
  assumes "texts request \<noteq> []"
      and "generate_embeddings em (texts request) (role request) 32 True = (Inl e, calls)"
      and "\<not> is_Exception e"
  shows "embed_texts (Some em) request = (Inl (Uncaught e), calls)"
  using assms by (simp add: embed_texts_def)

lemma embed_texts_success:
  assumes "texts request \<noteq> []"
      and "generate_embeddings em (texts request) (role request) 32 True = (Inr vs, calls)"
  shows "embed_texts (Some em) request = (Inr \<lparr>vectors = vs\<rparr>, calls)"
  using assms by (simp add: embed_texts_def)

lemma embed_texts_returns:
  assumes "fst (embed_texts g request) = Inr response"
  shows "\<exists>em. g = Some em \<and> texts request \<noteq> [] \<and>
           fst (generate_embeddings em (texts request) (role request) 32 True) =
             Inr (vectors response)"
  using assms
  by (cases g; cases "texts request = []")
     (auto simp: embed_texts_def split: prod.splits sum.splits if_splits)

text \<open>
  Claim C2. For every non-empty batch that embeds successfully, the response holds
  exactly one vector per input text, in the order of the input texts. The rows come from
  the library's \<open>encode\<close>, so its contract is a hypothesis: whenever it returns, it
  returns one row per sentence it was given, the row at each position being an embedding
  (\<open>E\<close>) of the sentence at that position. The handler then calls it once, on the
  role-prefixed input texts in their order, and answers with exactly the rows it returned.
\<close>

theorem C2_one_vector_per_text_in_order:
  assumes contract:
        "\<forall>em \<in> set_option g. \<forall>m \<in> set_option (model em). \<forall>ss bs nf rows.
           encode m ss bs nf = Inr rows \<longrightarrow> list_all2 (E nf) ss rows"
      and nonempty: "texts request \<noteq> []"
      and success: "embed_texts g request = (Inr response, calls)"
  shows "length (vectors response) = length (texts request) \<and>
         list_all2 (\<lambda>text v. E True (hd (apply_role_prefix [text] (role request))) v)
           (texts request) (vectors response) \<and>
         calls = [(apply_role_prefix (texts request) (role request), 32, True)]"
proof -
  from success have "fst (embed_texts g request) = Inr response"
    by simp
  from embed_texts_returns [OF this] obtain em where
    g: "g = Some em" and
    gen: "fst (generate_embeddings em (texts request) (role request) 32 True) =
            Inr (vectors response)"
    by blast
  from generate_embeddings_success [OF gen] nonempty obtain m where
    m: "model em = Some m" and
    enc: "encode m (apply_role_prefix (texts request) (role request)) 32 True =
            Inr (vectors response)"
    by blast
  from contract g m enc
  have rows: "list_all2 (E True) (apply_role_prefix (texts request) (role request))
                (vectors response)"
    by simp
  then have "length (vectors response) = length (apply_role_prefix (texts request) (role request))"
    by (simp add: list_all2_lengthD)
  then have len: "length (vectors response) = length (texts request)"
    by (simp add: length_apply_role_prefix)
  from rows
  have "list_all2 (E True) (map (\<lambda>t. hd (apply_role_prefix [t] (role request))) (texts request))
          (vectors response)"
    using apply_role_prefix_pointwise [of "texts request" "role request"] by simp
  then have ord: "list_all2 (\<lambda>text v. E True (hd (apply_role_prefix [text] (role request))) v)
          (texts request) (vectors response)"
    by (simp add: list_all2_map1)
  have "generate_embeddings em (texts request) (role request) 32 True =
          (Inr (vectors response),
           [(apply_role_prefix (texts request) (role request), 32, True)])"
    using generate_embeddings_encode [OF m nonempty, of "role request" 32 True] enc by simp
  from embed_texts_success [OF nonempty this] success g
  have "calls = [(apply_role_prefix (texts request) (role request), 32, True)]"
    by simp
  with len ord show ?thesis
    by simp
qed

theorem C2_one_vector_per_text_in_order_witness:
  "embed_texts (Some loaded_model)
     \<lparr>texts = [''Hello world'', ''This is a test problem''], role = Some ''passage''\<rparr> =
     (Inr \<lparr>vectors = [[20], [31]]\<rparr>,
      [([''passage: Hello world'', ''passage: This is a test problem''], 32, True)]) \<and>
   length [[20::real], [31]] = length [''Hello world'', ''This is a test problem''] \<and>
   list_all2 (\<lambda>text v. v = [real (length (hd (apply_role_prefix [text] (Some ''passage''))))])
     [''Hello world'', ''This is a test problem''] [[20], [31]]"
proof -
  let ?request = "\<lparr>texts = [''Hello world'', ''This is a test problem''],
                    role = Some ''passage''\<rparr>"
  let ?response = "\<lparr>vectors = [[20::real], [31]]\<rparr>"
  let ?calls = "[([''passage: Hello world'', ''passage: This is a test problem''], 32::int, True)]"
  have contract:
    "\<forall>em \<in> set_option (Some loaded_model). \<forall>m \<in> set_option (model em). \<forall>ss bs nf rows.
       encode m ss bs nf = Inr rows \<longrightarrow> list_all2 (\<lambda>s v. v = [real (length s)]) ss rows"
    by (auto simp: loaded_model_def length_transformer_def list_all2_map2 list_all2_same)
  have nonempty: "texts ?request \<noteq> []"
    by simp
  have success: "embed_texts (Some loaded_model) ?request = (Inr ?response, ?calls)"
    by (simp add: embed_texts_def generate_embeddings_def is_ready_def loaded_model_def
          length_transformer_def apply_role_prefix_def)
  show ?thesis
    using C2_one_vector_per_text_in_order
            [of "Some loaded_model" "\<lambda>nf s v. v = [real (length s)]" ?request ?response ?calls,
             OF contract nonempty success]
          success
    by simp
qed

text \<open>
  Claim C3. The embed handler answers with status 400 exactly when the request's list of
  texts is empty; when generation fails with an error for any other reason (no model
  object, or \<open>generate_embeddings\<close> raises an error) it answers with status 500 and a
  message that ends with the text of the error; otherwise it answers with status 200 and
  the vectors \<open>generate_embeddings\<close> returned. What is not an error but an interrupt or
  an exit of the process, which \<open>except Exception\<close> does not catch, passes through the
  handler as it is.
\<close>

theorem C3_embed_handler_statuses:
  "(http_status (fst (embed_texts g request)) = Some 400 \<longleftrightarrow> texts request = []) \<and>
   (texts request = [] \<longrightarrow>
      embed_texts g request =
        (Inl (HTTPError \<lparr>status_code = 400, detail = ''texts list cannot be empty''\<rparr>), [])) \<and>
   (texts request \<noteq> [] \<and> g = None \<longrightarrow>
      fst (embed_texts g request) =
        Inl (HTTPError
          \<lparr>status_code = 500,
           detail = ''Embedding generation failed: '' @
                    str (NoneType_has_no_attribute ''generate_embeddings'')\<rparr>)) \<and>
   (\<forall>em e. texts request \<noteq> [] \<and> g = Some em \<and>
        fst (generate_embeddings em (texts request) (role request) 32 True) = Inl e \<and>
        is_Exception e \<longrightarrow>
      fst (embed_texts g request) =
        Inl (HTTPError
          \<lparr>status_code = 500, detail = ''Embedding generation failed: '' @ str e\<rparr>)) \<and>
   (\<forall>em e. texts request \<noteq> [] \<and> g = Some em \<and>
        fst (generate_embeddings em (texts request) (role request) 32 True) = Inl e \<and>
        \<not> is_Exception e \<longrightarrow>
      fst (embed_texts g request) = Inl (Uncaught e)) \<and>
   (\<forall>em vs. texts request \<noteq> [] \<and> g = Some em \<and>
        fst (generate_embeddings em (texts request) (role request) 32 True) = Inr vs \<longrightarrow>
      fst (embed_texts g request) = Inr \<lparr>vectors = vs\<rparr> \<and>
      http_status (fst (embed_texts g request)) = Some 200)"
proof -
  have fail: "fst (embed_texts g request) =
        Inl (HTTPError
          \<lparr>status_code = 500, detail = ''Embedding generation failed: '' @ str e\<rparr>)"
    if ne: "texts request \<noteq> []" and g: "g = Some em"
      and gen: "fst (generate_embeddings em (texts request) (role request) 32 True) = Inl e"
      and caught: "is_Exception e"
    for em e
  proof -
    obtain calls where
      "generate_embeddings em (texts request) (role request) 32 True = (Inl e, calls)"
      using gen by (cases "generate_embeddings em (texts request) (role request) 32 True") simp
    from embed_texts_failure [OF ne this caught] g show ?thesis
      by simp
  qed
  have through: "fst (embed_texts g request) = Inl (Uncaught e)"
    if ne: "texts request \<noteq> []" and g: "g = Some em"
      and gen: "fst (generate_embeddings em (texts request) (role request) 32 True) = Inl e"
      and uncaught: "\<not> is_Exception e"
    for em e
  proof -
    obtain calls where
      "generate_embeddings em (texts request) (role request) 32 True = (Inl e, calls)"
      using gen by (cases "generate_embeddings em (texts request) (role request) 32 True") simp
    from embed_texts_uncaught [OF ne this uncaught] g show ?thesis
      by simp
  qed
  have ok: "fst (embed_texts g request) = Inr \<lparr>vectors = vs\<rparr>"
    if ne: "texts request \<noteq> []" and g: "g = Some em"
      and gen: "fst (generate_embeddings em (texts request) (role request) 32 True) = Inr vs"
    for em vs
  proof -
    obtain calls where
      "generate_embeddings em (texts request) (role request) 32 True = (Inr vs, calls)"
      using gen by (cases "generate_embeddings em (texts request) (role request) 32 True") simp
    from embed_texts_success [OF ne this] g show ?thesis
      by simp
  qed
  have none: "fst (embed_texts g request) =
        Inl (HTTPError
          \<lparr>status_code = 500,
           detail = ''Embedding generation failed: '' @
                    str (NoneType_has_no_attribute ''generate_embeddings'')\<rparr>)"
    if ne: "texts request \<noteq> []" and g: "g = None"
    unfolding g embed_texts_no_model [OF ne] by (rule fst_conv)
  have empty: "embed_texts g request =
        (Inl (HTTPError \<lparr>status_code = 400, detail = ''texts list cannot be empty''\<rparr>), [])"
    if "texts request = []"
    using that by (rule embed_texts_no_texts)
  have status: "http_status (fst (embed_texts g request)) = Some 400 \<longleftrightarrow> texts request = []"
  proof (cases "texts request = []")
    case True
    then show ?thesis
      by (simp add: embed_texts_no_texts http_status_def)
  next
    case False
    show ?thesis
    proof (cases g)
      case None
      with False none show ?thesis
        by (simp add: http_status_def)
    next
      case (Some em)
      show ?thesis
      proof (cases "fst (generate_embeddings em (texts request) (role request) 32 True)")
        case (Inl e)
        show ?thesis
        proof (cases "is_Exception e")
          case True
          from fail [OF False Some Inl True] False show ?thesis
            by (simp add: http_status_def)
        next
          case uncaught: False
          from through [OF False Some Inl uncaught] False show ?thesis
            by (simp add: http_status_def)
        qed
      next
        case (Inr vs)
        from ok [OF False Some Inr] False show ?thesis
          by (simp add: http_status_def)
      qed
    qed
  qed
  have ok_status: "http_status (fst (embed_texts g request)) = Some 200"
    if ne: "texts request \<noteq> []" and g: "g = Some em"
      and gen: "fst (generate_embeddings em (texts request) (role request) 32 True) = Inr vs"
    for em vs
    using ok [OF ne g gen] by (simp add: http_status_def)
  from status empty none fail through ok ok_status show ?thesis
    by blast
qed

theorem C3_embed_handler_statuses_witness:
  "fst (embed_texts (Some loaded_model) \<lparr>texts = [], role = None\<rparr>) =
     Inl (HTTPError \<lparr>status_code = 400, detail = ''texts list cannot be empty''\<rparr>) \<and>
   fst (embed_texts (Some failing_model) \<lparr>texts = [''Hello world''], role = None\<rparr>) =
     Inl (HTTPError
       \<lparr>status_code = 500,
        detail = ''Embedding generation failed: Embedding generation failed: CUDA out of memory''\<rparr>) \<and>
   fst (embed_texts (Some interrupted_model) \<lparr>texts = [''Hello world''], role = None\<rparr>) =
     Inl (Uncaught (Exn KeyboardInterrupt [] None)) \<and>
   fst (embed_texts (Some loaded_model) \<lparr>texts = [''Hello world''], role = None\<rparr>) =
     Inr \<lparr>vectors = [[11]]\<rparr> \<and>
   http_status (fst (embed_texts (Some loaded_model) \<lparr>texts = [''Hello world''], role = None\<rparr>)) =
     Some 200"
proof -
  let ?empty = "\<lparr>texts = [], role = None\<rparr>"
  let ?hello = "\<lparr>texts = [''Hello world''], role = None\<rparr>"
  let ?err = "Exn RuntimeError ''Embedding generation failed: CUDA out of memory''
                (Some out_of_memory)"
  have bad: "fst (generate_embeddings failing_model (texts ?hello) (role ?hello) 32 True) = Inl ?err"
    by (simp add: generate_embeddings_def is_ready_def failing_model_def failing_transformer_def
          apply_role_prefix_def out_of_memory_def is_Exception_def)
  have caught: "is_Exception ?err"
    by (simp add: is_Exception_def)
  have stopped: "fst (generate_embeddings interrupted_model (texts ?hello) (role ?hello) 32 True) =
                   Inl keyboard_interrupt"
    by (simp add: generate_embeddings_def is_ready_def interrupted_model_def
          interrupted_transformer_def apply_role_prefix_def keyboard_interrupt_def is_Exception_def)
  have uncaught: "\<not> is_Exception keyboard_interrupt"
    by (simp add: is_Exception_def keyboard_interrupt_def)
  have good: "fst (generate_embeddings loaded_model (texts ?hello) (role ?hello) 32 True) =
                Inr [[11]]"
    by (simp add: generate_embeddings_def is_ready_def loaded_model_def length_transformer_def
          apply_role_prefix_def)
  have "embed_texts (Some loaded_model) ?empty =
          (Inl (HTTPError \<lparr>status_code = 400, detail = ''texts list cannot be empty''\<rparr>), [])"
    using C3_embed_handler_statuses [of "Some loaded_model" ?empty] by simp
  then have "fst (embed_texts (Some loaded_model) ?empty) =
               Inl (HTTPError \<lparr>status_code = 400, detail = ''texts list cannot be empty''\<rparr>)"
    by simp
  moreover have "fst (embed_texts (Some failing_model) ?hello) =
     Inl (HTTPError
       \<lparr>status_code = 500,
        detail = ''Embedding generation failed: Embedding generation failed: CUDA out of memory''\<rparr>)"
    using C3_embed_handler_statuses [of "Some failing_model" ?hello] bad caught by simp
  moreover have "fst (embed_texts (Some interrupted_model) ?hello) =
     Inl (Uncaught (Exn KeyboardInterrupt [] None))"
    using C3_embed_handler_statuses [of "Some interrupted_model" ?hello] stopped uncaught
    by (simp add: keyboard_interrupt_def)
  moreover have "fst (embed_texts (Some loaded_model) ?hello) = Inr \<lparr>vectors = [[11]]\<rparr> \<and>
     http_status (fst (embed_texts (Some loaded_model) ?hello)) = Some 200"
    using C3_embed_handler_statuses [of "Some loaded_model" ?hello] good
    by (simp add: http_status_def)
  ultimately show ?thesis
    by blast
qed

section \<open>The model host\<close>

lemma EmbeddingModel_init_ready:
  assumes "EmbeddingModel_init load name = Inr self"
  shows "is_ready self"
  using assms
  by (auto simp: EmbeddingModel_init_def load_model_def is_ready_def split: sum.splits)

text \<open>
  Claim C4. The Model Host is an \<open>EmbeddingModel\<close> whose constructor has loaded the
  model: the constructor either raises or returns an object that is ready. On every
  such object, \<open>generate_embeddings\<close> called with an empty list of texts returns the
  empty list, invokes the model not at all and raises nothing.
\<close>

theorem C4_empty_texts_no_invocation:
  "(\<forall>load name. EmbeddingModel_init load name = Inr self \<longrightarrow>
      generate_embeddings self [] r bs nf = (Inr [], [])) \<and>
   (\<forall>load. lifespan_startup load = Inr (Some self) \<longrightarrow>
      generate_embeddings self [] r bs nf = (Inr [], [])) \<and>
   (is_ready self \<longrightarrow> generate_embeddings self [] r bs nf = (Inr [], []))"
proof -
  have ready: "generate_embeddings self [] r bs nf = (Inr [], [])" if "is_ready self"
    using that by (rule generate_embeddings_no_texts)
  have constructed: "generate_embeddings self [] r bs nf = (Inr [], [])"
    if "EmbeddingModel_init load name = Inr self" for load name
    using ready [OF EmbeddingModel_init_ready [OF that]] .
  have started: "generate_embeddings self [] r bs nf = (Inr [], [])"
    if "lifespan_startup load = Inr (Some self)" for load
  proof -
    from that have "EmbeddingModel_init load default_model_name = Inr self"
      by (simp add: lifespan_startup_def split: sum.splits)
    then show ?thesis
      by (rule constructed)
  qed
  from ready constructed started show ?thesis
    by blast
qed

theorem C4_empty_texts_no_invocation_witness:
  "EmbeddingModel_init (\<lambda>name. Inr length_transformer) ''intfloat/multilingual-e5-base'' =
     Inr loaded_model \<and>
   generate_embeddings loaded_model [] None 32 True = (Inr [], [])"
proof -
  have init: "EmbeddingModel_init (\<lambda>name. Inr length_transformer)
                ''intfloat/multilingual-e5-base'' = Inr loaded_model"
    by (simp add: EmbeddingModel_init_def load_model_def loaded_model_def length_transformer_def
          default_model_name_def)
  from C4_empty_texts_no_invocation [of loaded_model None 32 True] init show ?thesis
    by blast
qed

text \<open>
  Claim C5. A role other than \<open>passage\<close>, \<open>query\<close> and unset is ignored: for every list
  of texts, \<open>generate_embeddings\<close> returns (or raises) what it does with the role unset,
  after the same invocations of the model.
\<close>

theorem C5_unrecognized_role_ignored:
  assumes "r \<notin> {Some ''passage'', Some ''query'', None}"
  shows "generate_embeddings self ts r bs nf = generate_embeddings self ts None bs nf"
proof -
  from assms have "apply_role_prefix ts r = ts"
    by (simp add: apply_role_prefix_unknown)
  then have "apply_role_prefix ts r = apply_role_prefix ts None"
    by (simp add: apply_role_prefix_unset)
  then show ?thesis
    by (simp add: generate_embeddings_def)
qed

theorem C5_unrecognized_role_ignored_witness:
  "Some ''bogus'' \<notin> {Some ''passage'', Some ''query'', None} \<and>
   generate_embeddings loaded_model [''Hello world''] (Some ''bogus'') 32 True =
     generate_embeddings loaded_model [''Hello world''] None 32 True"
proof -
  have other: "Some ''bogus'' \<notin> {Some ''passage'', Some ''query'', None}"
    by simp
  from C5_unrecognized_role_ignored [OF other, of loaded_model "[''Hello world'']" 32 True] other
  show ?thesis
    by simp
qed

text \<open>
  Claim C6. \<open>generate_embeddings\<close> fails if the model is not loaded, and fails if the
  model's \<open>encode\<close> raises an error: the error raised then carries the text of the
  original one in its message and the original one as its context. What \<open>encode\<close>
  raises that is not an error (an interrupt or an exit, outside \<open>Exception\<close>) leaves the
  call unchanged. The call is all or nothing: whenever the model is not loaded or
  \<open>encode\<close> raises, no vectors are returned, and a call that returns gives either the
  empty list for no texts or all the rows \<open>encode\<close> returned.
\<close>

theorem C6_generation_all_or_nothing:
  "(\<not> is_ready self \<longrightarrow>
      generate_embeddings self ts r bs nf =
        (Inl (Exn ValueError ''Model not loaded. Call _load_model() first.'' None), [])) \<and>
   (\<forall>m e. model self = Some m \<and> ts \<noteq> [] \<and>
        encode m (apply_role_prefix ts r) bs nf = Inl e \<and> is_Exception e \<longrightarrow>
      fst (generate_embeddings self ts r bs nf) =
        Inl (Exn RuntimeError (''Embedding generation failed: '' @ str e) (Some e))) \<and>
   (\<forall>m e. model self = Some m \<and> ts \<noteq> [] \<and>
        encode m (apply_role_prefix ts r) bs nf = Inl e \<and> \<not> is_Exception e \<longrightarrow>
      fst (generate_embeddings self ts r bs nf) = Inl e) \<and>
   (\<forall>m e. model self = Some m \<and> ts \<noteq> [] \<and>
        encode m (apply_role_prefix ts r) bs nf = Inl e \<longrightarrow>
      (\<forall>vs. fst (generate_embeddings self ts r bs nf) \<noteq> Inr vs)) \<and>
   (\<forall>vs. fst (generate_embeddings self ts r bs nf) = Inr vs \<longrightarrow>
      (ts = [] \<and> vs = []) \<or>
      (\<exists>m. model self = Some m \<and> encode m (apply_role_prefix ts r) bs nf = Inr vs))"
proof -
  have unloaded: "\<not> is_ready self \<longrightarrow>
      generate_embeddings self ts r bs nf =
        (Inl (Exn ValueError ''Model not loaded. Call _load_model() first.'' None), [])"
    by (simp add: generate_embeddings_not_ready)
  have wrapped: "fst (generate_embeddings self ts r bs nf) =
        Inl (Exn RuntimeError (''Embedding generation failed: '' @ str e) (Some e))"
    if "model self = Some m \<and> ts \<noteq> [] \<and>
        encode m (apply_role_prefix ts r) bs nf = Inl e \<and> is_Exception e"
    for m e
  proof -
    from that have m: "model self = Some m" and ne: "ts \<noteq> []"
      and enc: "encode m (apply_role_prefix ts r) bs nf = Inl e" and caught: "is_Exception e"
      by simp_all
    show ?thesis
      unfolding generate_embeddings_encode [OF m ne] enc using caught by simp
  qed
  have through: "fst (generate_embeddings self ts r bs nf) = Inl e"
    if "model self = Some m \<and> ts \<noteq> [] \<and>
        encode m (apply_role_prefix ts r) bs nf = Inl e \<and> \<not> is_Exception e"
    for m e
  proof -
    from that have m: "model self = Some m" and ne: "ts \<noteq> []"
      and enc: "encode m (apply_role_prefix ts r) bs nf = Inl e" and uncaught: "\<not> is_Exception e"
      by simp_all
    show ?thesis
      unfolding generate_embeddings_encode [OF m ne] enc using uncaught by simp
  qed
  have no_vectors: "\<forall>vs. fst (generate_embeddings self ts r bs nf) \<noteq> Inr vs"
    if "model self = Some m \<and> ts \<noteq> [] \<and>
        encode m (apply_role_prefix ts r) bs nf = Inl e"
    for m e
  proof (cases "is_Exception e")
    case True
    with that have "model self = Some m \<and> ts \<noteq> [] \<and>
        encode m (apply_role_prefix ts r) bs nf = Inl e \<and> is_Exception e"
      by simp
    from wrapped [OF this] show ?thesis
      by simp
  next
    case False
    with that have "model self = Some m \<and> ts \<noteq> [] \<and>
        encode m (apply_role_prefix ts r) bs nf = Inl e \<and> \<not> is_Exception e"
      by simp
    from through [OF this] show ?thesis
      by simp
  qed
  have returned: "(ts = [] \<and> vs = []) \<or>
      (\<exists>m. model self = Some m \<and> encode m (apply_role_prefix ts r) bs nf = Inr vs)"
    if "fst (generate_embeddings self ts r bs nf) = Inr vs" for vs
    using generate_embeddings_success [OF that] by blast
  have c2: "\<forall>m e. model self = Some m \<and> ts \<noteq> [] \<and>
        encode m (apply_role_prefix ts r) bs nf = Inl e \<and> is_Exception e \<longrightarrow>
      fst (generate_embeddings self ts r bs nf) =
        Inl (Exn RuntimeError (''Embedding generation failed: '' @ str e) (Some e))"
    by (intro allI impI) (rule wrapped)
  have c3: "\<forall>m e. model self = Some m \<and> ts \<noteq> [] \<and>
        encode m (apply_role_prefix ts r) bs nf = Inl e \<and> \<not> is_Exception e \<longrightarrow>
      fst (generate_embeddings self ts r bs nf) = Inl e"
    by (intro allI impI) (rule through)
  have c4: "\<forall>m e. model self = Some m \<and> ts \<noteq> [] \<and>
        encode m (apply_role_prefix ts r) bs nf = Inl e \<longrightarrow>
      (\<forall>vs. fst (generate_embeddings self ts r bs nf) \<noteq> Inr vs)"
  proof (rule allI, rule allI, rule impI)
    fix m e
    assume "model self = Some m \<and> ts \<noteq> [] \<and>
        encode m (apply_role_prefix ts r) bs nf = Inl e"
    then show "\<forall>vs. fst (generate_embeddings self ts r bs nf) \<noteq> Inr vs"
      by (rule no_vectors)
  qed
  have c5: "\<forall>vs. fst (generate_embeddings self ts r bs nf) = Inr vs \<longrightarrow>
      (ts = [] \<and> vs = []) \<or>
      (\<exists>m. model self = Some m \<and> encode m (apply_role_prefix ts r) bs nf = Inr vs)"
    by (intro allI impI) (rule returned)
  show ?thesis
    by (rule conjI [OF unloaded conjI [OF c2 conjI [OF c3 conjI [OF c4 c5]]]])
qed

theorem C6_generation_all_or_nothing_witness:
  "generate_embeddings unloaded_model [''Hello world''] None 32 True =
     (Inl (Exn ValueError ''Model not loaded. Call _load_model() first.'' None), []) \<and>
   fst (generate_embeddings failing_model [''Hello world''] None 32 True) =
     Inl (Exn RuntimeError ''Embedding generation failed: CUDA out of memory''
            (Some (Exn (OtherError ''OutOfMemoryError'') ''CUDA out of memory'' None))) \<and>
   fst (generate_embeddings interrupted_model [''Hello world''] None 32 True) =
     Inl (Exn KeyboardInterrupt [] None) \<and>
   fst (generate_embeddings failing_model [''Hello world''] None 32 True) \<noteq> Inr [[11]]"
proof -
  have unloaded: "\<not> is_ready unloaded_model"
    by (simp add: is_ready_def unloaded_model_def)
  have m: "model failing_model = Some failing_transformer"
    by (simp add: failing_model_def)
  have enc: "encode failing_transformer (apply_role_prefix [''Hello world''] None) 32 True =
               Inl out_of_memory"
    by (simp add: failing_transformer_def)
  have caught: "is_Exception out_of_memory"
    by (simp add: is_Exception_def out_of_memory_def)
  have m': "model interrupted_model = Some interrupted_transformer"
    by (simp add: interrupted_model_def)
  have enc': "encode interrupted_transformer (apply_role_prefix [''Hello world''] None) 32 True =
               Inl keyboard_interrupt"
    by (simp add: interrupted_transformer_def)
  have uncaught: "\<not> is_Exception keyboard_interrupt"
    by (simp add: is_Exception_def keyboard_interrupt_def)
  have "generate_embeddings unloaded_model [''Hello world''] None 32 True =
     (Inl (Exn ValueError ''Model not loaded. Call _load_model() first.'' None), [])"
    using C6_generation_all_or_nothing [of unloaded_model "[''Hello world'']" None 32 True]
          unloaded
    by blast
  moreover have "fst (generate_embeddings failing_model [''Hello world''] None 32 True) =
     Inl (Exn RuntimeError (''Embedding generation failed: '' @ str out_of_memory)
            (Some out_of_memory))"
    using C6_generation_all_or_nothing [of failing_model "[''Hello world'']" None 32 True]
          m enc caught
    by blast
  moreover have "fst (generate_embeddings interrupted_model [''Hello world''] None 32 True) =
     Inl keyboard_interrupt"
    using C6_generation_all_or_nothing [of interrupted_model "[''Hello world'']" None 32 True]
          m' enc' uncaught
    by blast
  moreover have "fst (generate_embeddings failing_model [''Hello world''] None 32 True) \<noteq>
                   Inr [[11]]"
    using C6_generation_all_or_nothing [of failing_model "[''Hello world'']" None 32 True] m enc
    by blast
  ultimately show ?thesis
    by (simp add: out_of_memory_def keyboard_interrupt_def)
qed

text \<open>
  Claim C9. When normalize is true, every vector \<open>generate_embeddings\<close> returns has
  Euclidean norm 1 within the tolerance. The scaling is done by the library's
  \<open>encode\<close>, so its contract is a hypothesis: called with \<open>normalize_embeddings\<close> true,
  it returns rows of norm 1 within the tolerance. \<open>generate_embeddings\<close> hands the flag
  on to \<open>encode\<close> as it is and returns the rows unchanged.
\<close>

theorem C9_normalized_vectors_unit_norm:
  assumes contract:
        "\<forall>m \<in> set_option (model self). \<forall>ss b rows.
           encode m ss b True = Inr rows \<longrightarrow> (\<forall>v \<in> set rows. unit_within tol v)"
      and success: "fst (generate_embeddings self ts r bs True) = Inr vs"
  shows "(\<forall>v \<in> set vs. \<bar>l2_norm v - 1\<bar> \<le> tol) \<and>
         (ts \<noteq> [] \<longrightarrow>
            snd (generate_embeddings self ts r bs True) = [(apply_role_prefix ts r, bs, True)])"
proof -
  have norms: "\<bar>l2_norm v - 1\<bar> \<le> tol" if v: "v \<in> set vs" for v
  proof -
    from generate_embeddings_success [OF success] v obtain m where
      m: "model self = Some m" and
      enc: "encode m (apply_role_prefix ts r) bs True = Inr vs"
      by auto
    from contract m enc v have "unit_within tol v"
      by simp
    then show ?thesis
      by (simp add: unit_within_def)
  qed
  have forwarded: "snd (generate_embeddings self ts r bs True) =
                     [(apply_role_prefix ts r, bs, True)]"
    if ne: "ts \<noteq> []"
  proof -
    from generate_embeddings_success [OF success] ne obtain m where
      m: "model self = Some m"
      by auto
    from generate_embeddings_encode [OF m ne, of r bs True] show ?thesis
      by simp
  qed
  from norms forwarded show ?thesis
    by blast
qed

theorem C9_normalized_vectors_unit_norm_witness:
  "fst (generate_embeddings direction_model [''Hello world'', ''This is a test problem'']
          (Some ''passage'') 32 True) = Inr [[3 / 5, 4 / 5], [3 / 5, 4 / 5]] \<and>
   \<bar>l2_norm [3 / 5, 4 / 5] - 1\<bar> \<le> 1 / 100000 \<and>
   snd (generate_embeddings direction_model [''Hello world'', ''This is a test problem'']
          (Some ''passage'') 32 True) =
     [([''passage: Hello world'', ''passage: This is a test problem''], 32, True)]"
proof -
  let ?ts = "[''Hello world'', ''This is a test problem'']"
  have unit: "unit_within (1 / 100000) [3 / 5, 4 / 5]"
  proof -
    have "(\<Sum>x\<leftarrow>[3 / 5, 4 / 5 :: real]. x\<^sup>2) = 1"
      by (simp add: power2_eq_square)
    then show ?thesis
      by (simp add: unit_within_def l2_norm_def)
  qed
  have contract:
    "\<forall>m \<in> set_option (model direction_model). \<forall>ss b rows.
       encode m ss b True = Inr rows \<longrightarrow> (\<forall>v \<in> set rows. unit_within (1 / 100000) v)"
    using unit by (auto simp: direction_model_def direction_transformer_def)
  have success: "fst (generate_embeddings direction_model ?ts (Some ''passage'') 32 True) =
                   Inr [[3 / 5, 4 / 5], [3 / 5, 4 / 5]]"
    by (simp add: generate_embeddings_def is_ready_def direction_model_def
          direction_transformer_def apply_role_prefix_def)
  have prefixed: "apply_role_prefix ?ts (Some ''passage'') =
                    [''passage: Hello world'', ''passage: This is a test problem'']"
    by (simp add: apply_role_prefix_def)
  from C9_normalized_vectors_unit_norm [OF contract success] success prefixed show ?thesis
    by simp
qed

text \<open>
  Claim C8. For every text, role and normalize flag, \<open>generate_single_embedding\<close> is the
  batch operation on the one-element list: it raises what the batch raises, returns the
  batch's sole vector, and returns the empty vector if the batch returns no vector.
\<close>

theorem C8_single_embedding_is_batch_of_one:
  "generate_single_embedding self text r nf = generate_single_embedding_spec self text r nf \<and>
   (\<forall>e calls. generate_embeddings self [text] r 32 nf = (Inl e, calls) \<longrightarrow>
      generate_single_embedding self text r nf = (Inl e, calls)) \<and>
   (\<forall>v calls. generate_embeddings self [text] r 32 nf = (Inr [v], calls) \<longrightarrow>
      generate_single_embedding self text r nf = (Inr v, calls)) \<and>
   (\<forall>calls. generate_embeddings self [text] r 32 nf = (Inr [], calls) \<longrightarrow>
      generate_single_embedding self text r nf = (Inr [], calls))"
proof -
  obtain res calls where batch: "generate_embeddings self [text] r 32 nf = (res, calls)"
    by (cases "generate_embeddings self [text] r 32 nf")
  have "generate_single_embedding self text r nf = generate_single_embedding_spec self text r nf"
  proof (cases res)
    case (Inl e)
    with batch show ?thesis
      by (simp add: generate_single_embedding_def generate_single_embedding_spec_def)
  next
    case (Inr vs)
    with batch show ?thesis
      by (cases vs)
         (simp_all add: generate_single_embedding_def generate_single_embedding_spec_def
            sole_result_or_empty_def)
  qed
  then show ?thesis
    by (simp add: generate_single_embedding_def)
qed

theorem C8_single_embedding_is_batch_of_one_witness:
  "generate_embeddings loaded_model [''Hello world''] (Some ''query'') 32 True =
     (Inr [[18]], [([''query: Hello world''], 32, True)]) \<and>
   generate_single_embedding loaded_model ''Hello world'' (Some ''query'') True =
     (Inr [18], [([''query: Hello world''], 32, True)])"
proof -
  have batch: "generate_embeddings loaded_model [''Hello world''] (Some ''query'') 32 True =
     (Inr [[18]], [([''query: Hello world''], 32, True)])"
    by (simp add: generate_embeddings_def is_ready_def loaded_model_def length_transformer_def
          apply_role_prefix_def)
  from C8_single_embedding_is_batch_of_one [of loaded_model "''Hello world''" "Some ''query''" True]
       batch
  show ?thesis
    by blast
qed

section \<open>The health endpoint\<close>

lemma lifespan_startup_loaded:
  assumes "lifespan_startup load = Inr g"
  shows "\<exists>em. g = Some em \<and> is_ready em \<and> model_name em = default_model_name"
  using assms
  by (auto simp: lifespan_startup_def EmbeddingModel_init_def load_model_def is_ready_def
           split: sum.splits)

text \<open>
  Claim C7. The health operation returns a response for every state of the service, also
  before any model object exists. Its status is \<open>healthy\<close> if and only if a model object
  exists and reports itself ready, \<open>unhealthy\<close> otherwise; it carries that boolean as
  \<open>model_loaded\<close>, and as \<open>model_name\<close> the identifier the service is set up with, which
  is the name of the model object that the start of the service creates.
\<close>

theorem C7_health_check_total:
  "map fst (health_check g) = [''status'', ''model_loaded'', ''model_name''] \<and>
   (map_of (health_check g) ''status'' = Some (JStr ''healthy'') \<longleftrightarrow>
      (\<exists>em. g = Some em \<and> is_ready em)) \<and>
   (map_of (health_check g) ''status'' = Some (JStr ''unhealthy'') \<longleftrightarrow>
      \<not> (\<exists>em. g = Some em \<and> is_ready em)) \<and>
   map_of (health_check g) ''model_loaded'' = Some (JBool (\<exists>em. g = Some em \<and> is_ready em)) \<and>
   map_of (health_check g) ''model_name'' = Some (JStr default_model_name) \<and>
   (\<forall>load. lifespan_startup load = Inr g \<longrightarrow>
      (\<exists>em. g = Some em \<and>
         map_of (health_check g) ''model_name'' = Some (JStr (model_name em)) \<and>
         map_of (health_check g) ''status'' = Some (JStr ''healthy'')))"
proof -
  have ready: "(case g of None \<Rightarrow> False | Some em \<Rightarrow> is_ready em) \<longleftrightarrow>
                 (\<exists>em. g = Some em \<and> is_ready em)"
    by (cases g) simp_all
  have keys: "map fst (health_check g) = [''status'', ''model_loaded'', ''model_name'']"
    by (simp add: health_check_def Let_def)
  have status: "map_of (health_check g) ''status'' =
      Some (JStr (if \<exists>em. g = Some em \<and> is_ready em then ''healthy'' else ''unhealthy''))"
    unfolding health_check_def Let_def ready by simp
  have loaded: "map_of (health_check g) ''model_loaded'' =
                  Some (JBool (\<exists>em. g = Some em \<and> is_ready em))"
    unfolding health_check_def Let_def ready by simp
  have name: "map_of (health_check g) ''model_name'' = Some (JStr default_model_name)"
    by (simp add: health_check_def Let_def default_model_name_def)
  have started: "\<exists>em. g = Some em \<and>
         map_of (health_check g) ''model_name'' = Some (JStr (model_name em)) \<and>
         map_of (health_check g) ''status'' = Some (JStr ''healthy'')"
    if "lifespan_startup load = Inr g" for load
  proof -
    from lifespan_startup_loaded [OF that] obtain em where
      em: "g = Some em" "is_ready em" "model_name em = default_model_name"
      by blast
    then have "\<exists>em. g = Some em \<and> is_ready em"
      by blast
    with status have "map_of (health_check g) ''status'' = Some (JStr ''healthy'')"
      by simp
    with em name show ?thesis
      by simp
  qed
  have healthy: "map_of (health_check g) ''status'' = Some (JStr ''healthy'') \<longleftrightarrow>
      (\<exists>em. g = Some em \<and> is_ready em)"
    unfolding status by simp
  have unhealthy: "map_of (health_check g) ''status'' = Some (JStr ''unhealthy'') \<longleftrightarrow>
      \<not> (\<exists>em. g = Some em \<and> is_ready em)"
    unfolding status by simp
  from keys healthy unhealthy loaded name started show ?thesis
    by blast
qed

theorem C7_health_check_total_witness:
  "health_check (None :: real EmbeddingModel option) =
     [(''status'', JStr ''unhealthy''), (''model_loaded'', JBool False),
      (''model_name'', JStr ''intfloat/multilingual-e5-base'')] \<and>
   map_of (health_check (Some unloaded_model)) ''status'' = Some (JStr ''unhealthy'') \<and>
   lifespan_startup (\<lambda>name. Inr length_transformer) = Inr (Some loaded_model) \<and>
   map_of (health_check (Some loaded_model)) ''status'' = Some (JStr ''healthy'') \<and>
   map_of (health_check (Some loaded_model)) ''model_loaded'' = Some (JBool True) \<and>
   map_of (health_check (Some loaded_model)) ''model_name'' =
     Some (JStr (model_name loaded_model))"
proof -
  have start: "lifespan_startup (\<lambda>name. Inr length_transformer) = Inr (Some loaded_model)"
    by (simp add: lifespan_startup_def EmbeddingModel_init_def load_model_def loaded_model_def
          length_transformer_def)
  have ready: "is_ready loaded_model"
    by (simp add: is_ready_def loaded_model_def)
  have unready: "\<not> is_ready unloaded_model"
    by (simp add: is_ready_def unloaded_model_def)
  have none: "health_check (None :: real EmbeddingModel option) =
     [(''status'', JStr ''unhealthy''), (''model_loaded'', JBool False),
      (''model_name'', JStr ''intfloat/multilingual-e5-base'')]"
    by (simp add: health_check_def)
  have "map_of (health_check (Some unloaded_model)) ''status'' = Some (JStr ''unhealthy'')"
    using C7_health_check_total [of "Some unloaded_model"] unready by simp
  moreover have "map_of (health_check (Some loaded_model)) ''status'' = Some (JStr ''healthy'') \<and>
     map_of (health_check (Some loaded_model)) ''model_loaded'' = Some (JBool True) \<and>
     map_of (health_check (Some loaded_model)) ''model_name'' =
       Some (JStr (model_name loaded_model))"
    using C7_health_check_total [of "Some loaded_model"] ready start by auto
  ultimately show ?thesis
    using none start by blast
qed

section \<open>Validated requests\<close>

text \<open>
  Claim C10. Every \<open>EmbedRequest\<close> that passes construction has a non-empty list of
  texts, so for it the handler never takes the branch that answers 400 for an empty list.
\<close>

theorem C10_validated_request_never_400:
  assumes "EmbedRequest_new ts r = Inr request"
  shows "texts request \<noteq> [] \<and>
         http_status (fst (embed_texts g request)) \<noteq> Some 400 \<and>
         embed_texts g request \<noteq>
           (Inl (HTTPError \<lparr>status_code = 400, detail = ''texts list cannot be empty''\<rparr>), [])"
proof -
  from assms have ne: "texts request \<noteq> []"
    by (auto simp: EmbedRequest_new_def split: if_splits)
  have status: "http_status (fst (embed_texts g request)) \<noteq> Some 400"
  proof (cases g)
    case None
    with ne show ?thesis
      by (simp add: embed_texts_no_model http_status_def)
  next
    case (Some em)
    obtain res calls where
      gen: "generate_embeddings em (texts request) (role request) 32 True = (res, calls)"
      by (cases "generate_embeddings em (texts request) (role request) 32 True")
    show ?thesis
    proof (cases res)
      case (Inl e)
      with gen embed_texts_failure [OF ne, of em e calls]
           embed_texts_uncaught [OF ne, of em e calls] Some
      show ?thesis
        by (cases "is_Exception e") (simp_all add: http_status_def)
    next
      case (Inr vs)
      with gen embed_texts_success [OF ne, of em vs calls] Some show ?thesis
        by (simp add: http_status_def)
    qed
  qed
  then have "embed_texts g request \<noteq>
           (Inl (HTTPError \<lparr>status_code = 400, detail = ''texts list cannot be empty''\<rparr>), [])"
    by (auto simp: http_status_def)
  with ne status show ?thesis
    by simp
qed

theorem C10_validated_request_never_400_witness:
  "EmbedRequest_new [''Hello world''] (Some ''passage'') =
     Inr \<lparr>texts = [''Hello world''], role = Some ''passage''\<rparr> \<and>
   EmbedRequest_new [] (Some ''passage'') = Inl (ValidationError ''texts'') \<and>
   http_status (fst (embed_texts (Some loaded_model)
     \<lparr>texts = [''Hello world''], role = Some ''passage''\<rparr>)) \<noteq> Some 400"
proof -
  have new: "EmbedRequest_new [''Hello world''] (Some ''passage'') =
     Inr \<lparr>texts = [''Hello world''], role = Some ''passage''\<rparr>"
    by (simp add: EmbedRequest_new_def)
  have refused: "EmbedRequest_new [] (Some ''passage'') = Inl (ValidationError ''texts'')"
    by (simp add: EmbedRequest_new_def)
  from C10_validated_request_never_400 [OF new, of "Some loaded_model"] new refused
  show ?thesis
    by blast
qed

end
